theory Spec2Isabelle
  imports Main "HOL-Library.Char_ord" "HOL-Library.List_Lexorder"
begin

section \<open>Values exchanged with the external services\<close>

text \<open>
  The script (\<^verbatim>\<open>main_script.py\<close>) receives the answers of the completion service as text
  and reads them with \<^verbatim>\<open>json.loads\<close>. The parsed value is modelled by \<open>json\<close>;
  an object keeps its pairs in the order of the text, and a repeated key takes its last
  value, as \<^verbatim>\<open>json.loads\<close> does. Numbers are the integers; a number with a
  fraction is outside this model.
\<close>

datatype json =
    JNull
  | JBool bool
  | JInt int
  | JStr string
  | JList "json list"
  | JObj "(string \<times> json) list"

text \<open>The exceptions the modelled code can raise or catch.\<close>

datatype exn =
    ServiceError
  | JSONDecodeError
  | TypeError
  | AttributeError
  | OverflowError
  | ZeroDivisionError

text \<open>Python's truth value of a parsed value (\<^verbatim>\<open>if x:\<close>).\<close>

fun truthy :: "json \<Rightarrow> bool" where
  "truthy JNull = False"
| "truthy (JBool b) = b"
| "truthy (JInt n) = (n \<noteq> 0)"
| "truthy (JStr s) = (s \<noteq> [])"
| "truthy (JList xs) = (xs \<noteq> [])"
| "truthy (JObj kvs) = (kvs \<noteq> [])"

text \<open>
  \<^verbatim>\<open>str.strip()\<close> removes the white space at both ends. A string is a list of
  bytes here; among the ASCII characters the white space of Python is the codes 9 to 13,
  28 to 31 and 32. The white space of Unicode beyond ASCII is left out.
\<close>

definition is_space :: "char \<Rightarrow> bool" where
  "is_space c = (let n = of_char c :: nat in (9 \<le> n \<and> n \<le> 13) \<or> (28 \<le> n \<and> n \<le> 32))"

definition strip :: "string \<Rightarrow> string" where
  "strip s = rev (dropWhile is_space (rev (dropWhile is_space s)))"

text \<open>\<^verbatim>\<open>item.get(key, default)\<close>: only a dict has the method.\<close>

fun py_get :: "json \<Rightarrow> string \<Rightarrow> json \<Rightarrow> exn + json" where
  "py_get (JObj kvs) k d = Inr (case map_of (rev kvs) k of None \<Rightarrow> d | Some v \<Rightarrow> v)"
| "py_get _ k d = Inl AttributeError"

text \<open>\<^verbatim>\<open>x.strip()\<close> on a parsed value: only a string has the method.\<close>

fun py_strip :: "json \<Rightarrow> exn + string" where
  "py_strip (JStr s) = Inr (strip s)"
| "py_strip _ = Inl AttributeError"

text \<open>
  \<^verbatim>\<open>for item in all_items\<close>: a list gives its elements, a string its characters,
  a dict its keys, each once and in the order of their first occurrence; anything else is
  not iterable.
\<close>

fun py_iter :: "json \<Rightarrow> exn + json list" where
  "py_iter (JList xs) = Inr xs"
| "py_iter (JStr s) = Inr (map (\<lambda>c. JStr [c]) s)"
| "py_iter (JObj kvs) = Inr (map JStr (rev (remdups (rev (map fst kvs)))))"
| "py_iter _ = Inl TypeError"

section \<open>Questions and the session state\<close>

record question_item =
  topic :: string
  question :: string
  answer_key :: string

record question_set =
  set_id :: nat
  set_questions :: "question_item list"
  topics :: "string list"
  timestamp :: string

text \<open>
  \<^verbatim>\<open>st.session_state\<close>. The key \<^verbatim>\<open>all_question_sets\<close> is absent until the
  first set is stored (\<open>None\<close>). \<open>ans\<close> holds the text areas, keyed
  \<^verbatim>\<open>ans_{qid}_{i}\<close>; \<open>last_audio_hash\<close> the keys \<^verbatim>\<open>last_audio_hash_{i}\<close>,
  where an absent key and the value \<^verbatim>\<open>None\<close> are both \<open>None\<close>. The keys that
  are written and never read (\<^verbatim>\<open>generate_new_set\<close>, \<^verbatim>\<open>selected_prev_set\<close>,
  \<^verbatim>\<open>transcriptions_{i}\<close>) are left out. \<open>pdf_text\<close> is the text of the uploaded
  document; the sections modelled below are drawn only while a document is uploaded.
\<close>

record session =
  question_set_id :: nat
  questions :: "question_item list"
  user_answers :: "string list"
  evaluations :: json
  mode :: string
  current_set_id :: "nat option"
  generate_now :: bool
  all_question_sets :: "question_set list option"
  pdf_text :: string
  ans :: "(nat \<times> nat) \<rightharpoonup> string"
  last_audio_hash :: "nat \<rightharpoonup> string"

section \<open>Topic ledger\<close>

text \<open>The history read with \<^verbatim>\<open>st.session_state.get("all_question_sets", [])\<close>.\<close>

definition history :: "session \<Rightarrow> question_set list" where
  "history s = (case all_question_sets s of None \<Rightarrow> [] | Some sets \<Rightarrow> sets)"

text \<open>
  \<^verbatim>\<open>get_used_topics\<close>: every topic of every stored set is added to a Python set,
  and the set is returned sorted. Strings are compared character by character.
\<close>

definition get_used_topics :: "session \<Rightarrow> string list" where
  "get_used_topics s = sort (remdups (concat (map topics (history s))))"

section \<open>Question generation\<close>

text \<open>
  What the generation prompt is built from: the slider's count, the used topics and the
  text of the document. The completion service, the removal of the code fences and
  \<^verbatim>\<open>json.loads\<close> are one function from the request to the parsed value or to the
  exception raised on the way.
\<close>

record gen_request =
  req_count :: nat
  req_used_topics :: "string list"
  req_text :: string

type_synonym gen_service = "gen_request \<Rightarrow> exn + json"

text \<open>\<^verbatim>\<open>item.get(key, "").strip()\<close>\<close>

definition get_stripped :: "json \<Rightarrow> string \<Rightarrow> exn + string" where
  "get_stripped item k =
     (case py_get item k (JStr []) of Inl e \<Rightarrow> Inl e | Inr v \<Rightarrow> py_strip v)"

text \<open>
  One round of the list comprehension of lines 247 to 255: the filter
  \<^verbatim>\<open>item.get("question") and item.get("answer_key")\<close> first, then the three
  fields, stripped. \<open>None\<close> is an item the filter drops.
\<close>

definition normalize_item :: "json \<Rightarrow> exn + question_item option" where
  "normalize_item item =
     (case py_get item ''question'' JNull of Inl e \<Rightarrow> Inl e | Inr q \<Rightarrow>
      (if \<not> truthy q then Inr None else
       (case py_get item ''answer_key'' JNull of Inl e \<Rightarrow> Inl e | Inr a \<Rightarrow>
        (if \<not> truthy a then Inr None else
         (case get_stripped item ''topic'' of Inl e \<Rightarrow> Inl e | Inr t \<Rightarrow>
          (case get_stripped item ''question'' of Inl e \<Rightarrow> Inl e | Inr q' \<Rightarrow>
           (case get_stripped item ''answer_key'' of Inl e \<Rightarrow> Inl e | Inr a' \<Rightarrow>
            Inr (Some \<lparr>topic = t, question = q', answer_key = a'\<rparr>))))))))"

fun normalize_items :: "json list \<Rightarrow> exn + question_item list" where
  "normalize_items [] = Inr []"
| "normalize_items (item # items) =
     (case normalize_item item of Inl e \<Rightarrow> Inl e | Inr r \<Rightarrow>
      (case normalize_items items of Inl e \<Rightarrow> Inl e | Inr qs \<Rightarrow>
       Inr (case r of None \<Rightarrow> qs | Some q \<Rightarrow> q # qs)))"

definition parse_questions :: "json \<Rightarrow> exn + question_item list" where
  "parse_questions all_items =
     (case py_iter all_items of Inl e \<Rightarrow> Inl e | Inr items \<Rightarrow> normalize_items items)"

text \<open>
  The body of \<^verbatim>\<open>try\<close>/\<^verbatim>\<open>except\<close> of lines 236 to 261: any exception leaves
  \<^verbatim>\<open>all_questions = []\<close>.
\<close>

definition all_questions_of :: "exn + json \<Rightarrow> question_item list" where
  "all_questions_of resp =
     (case resp of Inl e \<Rightarrow> [] | Inr all_items \<Rightarrow>
      (case parse_questions all_items of Inl e \<Rightarrow> [] | Inr qs \<Rightarrow> qs))"

text \<open>Lines 263 to 292: the commit of a non-empty list of questions.\<close>

definition commit :: "string \<Rightarrow> question_item list \<Rightarrow> session \<Rightarrow> session" where
  "commit now all_questions s =
     (let new_set_id = length (history s);
          new_set = \<lparr>set_id = new_set_id, set_questions = all_questions,
                     topics = map topic (filter (\<lambda>q. topic q \<noteq> []) all_questions),
                     timestamp = now\<rparr>
      in s\<lparr>questions := all_questions,
           user_answers := replicate (length all_questions) [],
           all_question_sets := Some (history s @ [new_set]),
           current_set_id := Some new_set_id\<rparr>)"

text \<open>
  Lines 150 to 292, run when \<^verbatim>\<open>generate_now\<close> is set: the flag is cleared, the
  service is asked once, and the questions are committed when there are any.
  \<open>now\<close> is the time stamp, \<open>num_questions\<close> the slider.
\<close>

definition generate_block :: "gen_service \<Rightarrow> string \<Rightarrow> nat \<Rightarrow> session \<Rightarrow> session" where
  "generate_block llm now num_questions s =
     (let s1 = s\<lparr>generate_now := False\<rparr>;
          prompt = \<lparr>req_count = num_questions, req_used_topics = get_used_topics s1,
                    req_text = pdf_text s1\<rparr>;
          all_questions = all_questions_of (llm prompt)
      in if all_questions \<noteq> [] then commit now all_questions s1 else s1)"

definition generation :: "gen_service \<Rightarrow> string \<Rightarrow> nat \<Rightarrow> session \<Rightarrow> session" where
  "generation llm now num_questions s =
     (if generate_now s then generate_block llm now num_questions s else s)"

text \<open>
  The button \<^verbatim>\<open>Generate Questions\<close> (lines 138 to 148) and the button
  \<^verbatim>\<open>Generate a New Set of Questions\<close> (lines 481 to 488); both end in a rerun of
  the script, in which \<open>generation\<close> runs.
\<close>

definition click_generate_questions :: "session \<Rightarrow> session" where
  "click_generate_questions s =
     (if pdf_text s = [] then s
      else s\<lparr>generate_now := True, question_set_id := question_set_id s + 1\<rparr>)"

definition click_generate_new_set :: "session \<Rightarrow> session" where
  "click_generate_new_set s =
     s\<lparr>questions := [], user_answers := [], evaluations := JList [],
       mode := ''generate'', generate_now := True,
       question_set_id := question_set_id s + 1\<rparr>"

text \<open>A generation attempt fails when it leaves no question to commit.\<close>

definition generation_fails :: "gen_service \<Rightarrow> nat \<Rightarrow> session \<Rightarrow> bool" where
  "generation_fails llm num_questions s =
     (all_questions_of (llm \<lparr>req_count = num_questions, req_used_topics = get_used_topics s,
                             req_text = pdf_text s\<rparr>) = [])"

section \<open>Floating point\<close>

text \<open>
  Python's \<^verbatim>\<open>float\<close> is the binary64 format of IEEE 754: 53 bits of significand,
  the least exponent of a unit in the last place \<open>-1074\<close>, rounding to the nearest value
  with ties to the even significand. \<open>Finite m e\<close> is the float \<open>m * 2 ^ e\<close>, kept
  in one form per value: \<open>2 ^ 52 \<le> \<bar>m\<bar> < 2 ^ 53\<close> for a normal number,
  \<open>e = -1074\<close> for a subnormal one, \<open>Finite 0 0\<close> for zero (\<^verbatim>\<open>-0.0\<close> and
  \<^verbatim>\<open>0.0\<close>, which Python's \<^verbatim>\<open>==\<close> identifies, are one value). No operation
  of the script produces a NaN.
\<close>

datatype pyfloat = Finite int int | PosInf | NegInf

text \<open>The integer nearest to \<open>n / d\<close> for \<open>0 < d\<close>, a tie to the even one.\<close>

definition round_half_even :: "int \<Rightarrow> int \<Rightarrow> int" where
  "round_half_even n d =
     (let f = n div d; r = n mod d
      in if 2 * r < d then f else if d < 2 * r then f + 1 else if even f then f else f + 1)"

fun log2n :: "nat \<Rightarrow> nat" where
  "log2n n = (if n < 2 then 0 else Suc (log2n (n div 2)))"

text \<open>The integer part of the binary logarithm of \<open>n / d\<close>, for \<open>0 < n\<close> and \<open>0 < d\<close>.\<close>

definition floor_log2 :: "int \<Rightarrow> int \<Rightarrow> int" where
  "floor_log2 n d =
     (let e0 = int (log2n (nat n)) - int (log2n (nat d))
      in if (if 0 \<le> e0 then 2 ^ nat e0 * d \<le> n else d \<le> n * 2 ^ nat (- e0))
         then e0 else e0 - 1)"

text \<open>
  The binary64 value nearest to \<open>n / d\<close>, for \<open>0 < d\<close>; \<open>None\<close> when the
  rounded magnitude reaches \<open>2 ^ 1024\<close> (overflow).
\<close>

definition round_magnitude :: "int \<Rightarrow> int \<Rightarrow> (int \<times> int) option" where
  "round_magnitude n d =
     (let e = max (floor_log2 n d - 52) (- 1074);
          m = (if 0 \<le> e then round_half_even n (d * 2 ^ nat e)
               else round_half_even (n * 2 ^ nat (- e)) d)
      in if 0 \<le> e \<and> 2 ^ 1024 \<le> m * 2 ^ nat e then None
         else if m = 2 ^ 53 then Some (2 ^ 52, e + 1)
         else if m = 0 then Some (0, 0)
         else Some (m, e))"

definition to_double :: "int \<Rightarrow> int \<Rightarrow> (int \<times> int) option" where
  "to_double n d =
     (if n = 0 then Some (0, 0)
      else case round_magnitude \<bar>n\<bar> d of
             None \<Rightarrow> None
           | Some (m, e) \<Rightarrow> Some (if 0 < n then m else - m, e))"

text \<open>The exact value \<open>m * 2 ^ e\<close> as a fraction.\<close>

definition fraction :: "int \<Rightarrow> int \<Rightarrow> int \<times> int" where
  "fraction m e = (if 0 \<le> e then (m * 2 ^ nat e, 1) else (m, 2 ^ nat (- e)))"

text \<open>\<^verbatim>\<open>a / b\<close> on two \<^verbatim>\<open>int\<close>s: the quotient, correctly rounded.\<close>

definition truediv :: "int \<Rightarrow> int \<Rightarrow> exn + pyfloat" where
  "truediv a b =
     (if b = 0 then Inl ZeroDivisionError
      else case (if 0 < b then to_double a b else to_double (- a) (- b)) of
             None \<Rightarrow> Inl OverflowError
           | Some (m, e) \<Rightarrow> Inr (Finite m e))"

text \<open>\<^verbatim>\<open>x * k\<close> for a float and a positive \<^verbatim>\<open>int\<close> that a float holds exactly.\<close>

definition fmul :: "pyfloat \<Rightarrow> int \<Rightarrow> pyfloat" where
  "fmul x k =
     (case x of
        Finite m e \<Rightarrow>
          (case fraction m e of (n, d) \<Rightarrow>
             (case to_double (n * k) d of
                None \<Rightarrow> (if 0 < m then PosInf else NegInf)
              | Some (m', e') \<Rightarrow> Finite m' e'))
      | PosInf \<Rightarrow> PosInf
      | NegInf \<Rightarrow> NegInf)"

text \<open>
  \<^verbatim>\<open>round(x, 1)\<close>: the decimal with one digit after the point nearest to the exact
  value of \<open>x\<close> (a tie to the even digit), read back as a float; an infinity rounds to
  itself.
\<close>

definition round1 :: "pyfloat \<Rightarrow> exn + pyfloat" where
  "round1 x =
     (case x of
        Finite m e \<Rightarrow>
          (case fraction m e of (n, d) \<Rightarrow>
             (case to_double (round_half_even (n * 10) d) 10 of
                None \<Rightarrow> Inl OverflowError
              | Some (m', e') \<Rightarrow> Inr (Finite m' e')))
      | PosInf \<Rightarrow> Inr PosInf
      | NegInf \<Rightarrow> Inr NegInf)"

text \<open>
  The float a decimal literal with one digit after the point denotes:
  \<open>tenths 833\<close> is \<^verbatim>\<open>83.3\<close>.
\<close>

definition tenths :: "int \<Rightarrow> pyfloat" where
  "tenths k = (case to_double k 10 of None \<Rightarrow> (if 0 < k then PosInf else NegInf)
               | Some (m, e) \<Rightarrow> Finite m e)"

text \<open>Line 455: \<^verbatim>\<open>round(total_score / max_score * 100, 1)\<close>.\<close>

definition percentage :: "int \<Rightarrow> int \<Rightarrow> exn + pyfloat" where
  "percentage total_score max_score =
     (case truediv total_score max_score of
        Inl e \<Rightarrow> Inl e
      | Inr x \<Rightarrow> round1 (fmul x 100))"

section \<open>Answers and dictation\<close>

text \<open>What the page shows to the user, one constructor for each call of the script.\<close>

datatype notice =
    AlreadyTranscribed
  | DictationAppended
  | EmptyTranscription
  | TranscriptionFailed exn
  | ScoringFailed exn
  | EvaluationComplete
  | TotalScore int int pyfloat

text \<open>
  \<^verbatim>\<open>AlreadyTranscribed\<close> is \<^verbatim>\<open>st.info("This recording was already transcribed.")\<close>,
  \<^verbatim>\<open>DictationAppended\<close> is \<^verbatim>\<open>st.success("Dictation appended to your answer.")\<close>,
  \<^verbatim>\<open>EmptyTranscription\<close> is \<^verbatim>\<open>st.warning("Transcription returned empty text.")\<close>,
  \<^verbatim>\<open>TranscriptionFailed\<close> and \<^verbatim>\<open>ScoringFailed\<close> are the two \<^verbatim>\<open>st.error\<close>
  calls, \<^verbatim>\<open>EvaluationComplete\<close> is \<^verbatim>\<open>st.success("Evaluation complete!")\<close> and
  \<^verbatim>\<open>TotalScore\<close> the line \<^verbatim>\<open>Total Score: {total_score}/{max_score} ({percentage}%)\<close>.
\<close>

text \<open>\<^verbatim>\<open>st.session_state.get(f"ans_{qid}_{i}", "")\<close>\<close>

definition get_ans :: "nat \<Rightarrow> nat \<Rightarrow> session \<Rightarrow> string" where
  "get_ans qid i s = (case ans s (qid, i) of None \<Rightarrow> [] | Some t \<Rightarrow> t)"

text \<open>
  Lines 348 to 352 and again 367 to 371: the stored text is stripped and, when something
  is left, joined to the dictated text by one space.
\<close>

definition joined :: "string \<Rightarrow> string \<Rightarrow> string" where
  "joined stored dictated_text =
     (let existing_text = strip stored
      in if existing_text \<noteq> [] then existing_text @ '' '' @ dictated_text else dictated_text)"

text \<open>
  Lines 354 and 355, and again 373 and 374: the text goes to the text area and to
  \<^verbatim>\<open>user_answers[i]\<close>. The index is that of a question, and \<^verbatim>\<open>user_answers\<close>
  has been given the length of \<^verbatim>\<open>questions\<close> before (line 302), so it is in range.
\<close>

definition put_answer :: "nat \<Rightarrow> nat \<Rightarrow> string \<Rightarrow> session \<Rightarrow> session" where
  "put_answer qid i new_text s =
     s\<lparr>ans := (ans s)((qid, i) \<mapsto> new_text),
       user_answers := (user_answers s)[i := new_text]\<rparr>"

text \<open>
  Lines 322 to 363. \<open>sha256\<close> is the digest, \<open>whisper\<close> the transcription service with
  the temporary file around it, \<open>audio_data\<close> the bytes of the audio widget of the
  question. The result is \<^verbatim>\<open>dictated_text\<close>, the state and what is shown.
\<close>

definition dictation ::
  "(string \<Rightarrow> string) \<Rightarrow> (string \<Rightarrow> exn + string) \<Rightarrow> string option \<Rightarrow> nat \<Rightarrow> session
     \<Rightarrow> string \<times> session \<times> notice list" where
  "dictation sha256 whisper audio_data i s =
     (case audio_data of
        None \<Rightarrow> ([], s, [])
      | Some audio_bytes \<Rightarrow>
          (let audio_hash = sha256 audio_bytes
           in if last_audio_hash s i = Some audio_hash then ([], s, [AlreadyTranscribed])
              else (case whisper audio_bytes of
                      Inl e \<Rightarrow> ([], s, [TranscriptionFailed e])
                    | Inr text \<Rightarrow>
                        (let dictated_text = strip text
                         in if dictated_text \<noteq> [] then
                              (let qid = question_set_id s;
                                   new_text = joined (get_ans qid i s) dictated_text
                               in (dictated_text,
                                   (put_answer qid i new_text s)
                                     \<lparr>last_audio_hash := (last_audio_hash s)(i \<mapsto> audio_hash)\<rparr>,
                                   [DictationAppended]))
                            else (dictated_text, s, [EmptyTranscription])))))"

text \<open>
  The body of the loop over the questions, lines 306 to 376: the dictation, then lines 365
  to 374, which run in every case with the \<^verbatim>\<open>dictated_text\<close> of this run.
\<close>

definition answer_slot ::
  "(string \<Rightarrow> string) \<Rightarrow> (string \<Rightarrow> exn + string) \<Rightarrow> string option \<Rightarrow> nat \<Rightarrow> session
     \<Rightarrow> session \<times> notice list" where
  "answer_slot sha256 whisper audio_data i s =
     (case dictation sha256 whisper audio_data i s of
        (dictated_text, s1, shown) \<Rightarrow>
          (let qid = question_set_id s1;
               new_text = joined (get_ans qid i s1) dictated_text
           in (put_answer qid i new_text s1, shown)))"

text \<open>
  Lines 297 to 378: nothing is drawn without questions; \<^verbatim>\<open>user_answers\<close> is reset
  when its length is not that of \<^verbatim>\<open>questions\<close>; then the loop. \<open>audio\<close> gives the
  bytes held by the audio widget of each question.
\<close>

definition answer_section ::
  "(string \<Rightarrow> string) \<Rightarrow> (string \<Rightarrow> exn + string) \<Rightarrow> (nat \<Rightarrow> string option) \<Rightarrow> session
     \<Rightarrow> session \<times> notice list" where
  "answer_section sha256 whisper audio s =
     (if questions s = [] then (s, [])
      else let s0 = (if length (user_answers s) \<noteq> length (questions s)
                     then s\<lparr>user_answers := replicate (length (questions s)) []\<rparr> else s)
           in fold (\<lambda>i (st, shown).
                      case answer_slot sha256 whisper (audio i) i st of
                        (st', shown') \<Rightarrow> (st', shown @ shown'))
                [0..<length (questions s)] (s0, []))"

section \<open>Evaluation\<close>

text \<open>One entry of the list sent to the grading service (lines 420 to 427).\<close>

record graded =
  g_question :: string
  g_expected :: string
  g_response :: string

type_synonym eval_service = "graded list \<Rightarrow> exn + json"

text \<open>
  \<^verbatim>\<open>score_short_answers\<close>: the questions and the answers are paired by \<^verbatim>\<open>zip\<close>,
  the service is asked once, and an exception gives \<^verbatim>\<open>[]\<close>. The result is what the
  function returns, the requests it has sent and what it shows.
\<close>

definition score_short_answers ::
  "eval_service \<Rightarrow> string list \<Rightarrow> question_item list \<Rightarrow> json \<times> graded list list \<times> notice list" where
  "score_short_answers llm answers qs =
     (let payload = map (\<lambda>(q, a). \<lparr>g_question = question q, g_expected = answer_key q,
                                     g_response = a\<rparr>) (zip qs answers)
      in case llm payload of
           Inl e \<Rightarrow> (JList [], [payload], [ScoringFailed e])
         | Inr results \<Rightarrow> (results, [payload], []))"

text \<open>
  \<^verbatim>\<open>r.get("score", 0)\<close> as a summand of \<^verbatim>\<open>sum\<close>: an integer or a boolean adds,
  anything else is a \<^verbatim>\<open>TypeError\<close>.
\<close>

definition score_of :: "json \<Rightarrow> exn + int" where
  "score_of r =
     (case py_get r ''score'' (JInt 0) of
        Inl e \<Rightarrow> Inl e
      | Inr v \<Rightarrow> (case v of JInt n \<Rightarrow> Inr n
                  | JBool b \<Rightarrow> Inr (if b then 1 else 0)
                  | _ \<Rightarrow> Inl TypeError))"

fun sum_scores :: "json list \<Rightarrow> int \<Rightarrow> exn + int" where
  "sum_scores [] acc = Inr acc"
| "sum_scores (r # rs) acc =
     (case score_of r of Inl e \<Rightarrow> Inl e | Inr n \<Rightarrow> sum_scores rs (acc + n))"

text \<open>Lines 453 to 455, for a truthy \<^verbatim>\<open>results\<close>: total, maximum and percentage.\<close>

definition aggregate :: "json \<Rightarrow> exn + int \<times> int \<times> pyfloat" where
  "aggregate results =
     (case py_iter results of
        Inl e \<Rightarrow> Inl e
      | Inr rs \<Rightarrow>
          (case sum_scores rs 0 of
             Inl e \<Rightarrow> Inl e
           | Inr total_score \<Rightarrow>
               (let max_score = int (length rs) * 10
                in case percentage total_score max_score of
                     Inl e \<Rightarrow> Inl e
                   | Inr p \<Rightarrow> Inr (total_score, max_score, p))))"

text \<open>
  What a click on \<^verbatim>\<open>Evaluate My Answers\<close> leaves: the state, the requests sent to
  the grading service, what is shown, and either the exception that ended the run or the
  aggregate (\<open>None\<close> when line 449 skips it).
\<close>

record evaluated =
  ev_state :: session
  ev_calls :: "graded list list"
  ev_shown :: "notice list"
  ev_outcome :: "exn + (int \<times> int \<times> pyfloat) option"

text \<open>
  Lines 444 to 471. The button is inside \<^verbatim>\<open>if st.session_state["questions"]:\<close>
  (line 297): without questions it is not drawn and nothing runs.
\<close>

definition evaluate_click :: "eval_service \<Rightarrow> session \<Rightarrow> evaluated" where
  "evaluate_click llm s =
     (if questions s = [] then
        \<lparr>ev_state = s, ev_calls = [], ev_shown = [], ev_outcome = Inr None\<rparr>
      else case score_short_answers llm (user_answers s) (questions s) of
        (results, calls, shown) \<Rightarrow>
          (let s1 = s\<lparr>evaluations := results\<rparr>
           in if truthy results then
                (case aggregate results of
                   Inl e \<Rightarrow> \<lparr>ev_state = s1, ev_calls = calls, ev_shown = shown,
                              ev_outcome = Inl e\<rparr>
                 | Inr (total_score, max_score, p) \<Rightarrow>
                     \<lparr>ev_state = s1, ev_calls = calls,
                      ev_shown = shown @ [EvaluationComplete, TotalScore total_score max_score p,
                                          EvaluationComplete],
                      ev_outcome = Inr (Some (total_score, max_score, p))\<rparr>)
              else \<lparr>ev_state = s1, ev_calls = calls, ev_shown = shown, ev_outcome = Inr None\<rparr>))"

section \<open>The percentage as the specification writes it\<close>

text \<open>
  The specification writes the percentage \<^verbatim>\<open>round(100 * total / max, 1)\<close>: the
  product first, on integers, then the division. This definition follows those words, to
  be compared with \<open>percentage\<close>, which follows line 455.
\<close>

definition spec_percentage :: "int \<Rightarrow> int \<Rightarrow> exn + pyfloat" where
  "spec_percentage total_score max_score =
     (case truediv (100 * total_score) max_score of
        Inl e \<Rightarrow> Inl e
      | Inr x \<Rightarrow> round1 x)"

section \<open>Sessions and services used as examples\<close>

text \<open>Lines 30 to 55: the state of a new session, here with the text of an uploaded document.\<close>

definition initial_session :: "string \<Rightarrow> session" where
  "initial_session text =
     \<lparr>question_set_id = 0, questions = [], user_answers = [], evaluations = JList [],
      mode = ''idle'', current_set_id = None, generate_now = False,
      all_question_sets = None, pdf_text = text, ans = Map.empty,
      last_audio_hash = Map.empty\<rparr>"

definition item :: "string \<Rightarrow> string \<Rightarrow> string \<Rightarrow> json" where
  "item t q a = JObj [(''topic'', JStr t), (''question'', JStr q), (''answer_key'', JStr a)]"

definition failing_service :: gen_service where
  "failing_service = (\<lambda>prompt. Inl ServiceError)"

definition one_item_service :: gen_service where
  "one_item_service = (\<lambda>prompt. Inr (JList [item ''Airway'' ''Q1'' ''K1'']))"

definition two_items_service :: gen_service where
  "two_items_service =
     (\<lambda>prompt. Inr (JList [item ''Shock'' ''Q1'' ''K1'', item ''Airway'' ''Q2'' ''K2'']))"

definition blank_question_service :: gen_service where
  "blank_question_service = (\<lambda>prompt. Inr (JList [item ''Airway'' '' '' ''K1'']))"

text \<open>A session after one successful generation of two questions.\<close>

definition two_question_session :: session where
  "two_question_session =
     generation two_items_service ''2026-01-01 00:00:00'' 2
       (click_generate_questions (initial_session ''manual''))"

text \<open>A session after one successful generation of one question.\<close>

definition one_question_session :: session where
  "one_question_session =
     generation one_item_service ''2026-01-01 00:00:00'' 1
       (click_generate_questions (initial_session ''manual''))"

text \<open>The same session after the user has typed \<^verbatim>\<open>A\<close> into the text area.\<close>

definition typed_session :: session where
  "typed_session =
     one_question_session\<lparr>ans := (ans one_question_session)((1, 0) \<mapsto> ''A''),
                           user_answers := [''A'']\<rparr>"

definition transcribes_B :: "string \<Rightarrow> exn + string" where
  "transcribes_B = (\<lambda>audio_bytes. Inr ''B'')"

definition grade :: "int \<Rightarrow> json" where
  "grade n = JObj [(''score'', JInt n), (''feedback'', JStr ''ok''), (''model_answer'', JStr ''m'')]"

text \<open>The same session with an evaluation of its question stored.\<close>

definition evaluated_session :: session where
  "evaluated_session = ev_state (evaluate_click (\<lambda>payload. Inr (JList [grade 7])) typed_session)"

text \<open>
  A stand-in for the digest: the script only compares digests, so any function will do
  in an example.
\<close>

definition stand_in_sha256 :: "string \<Rightarrow> string" where
  "stand_in_sha256 audio_bytes = audio_bytes"

text \<open>The typed session after one run of the script with a recording in the audio widget.\<close>

definition dictated_session :: session where
  "dictated_session =
     fst (answer_slot stand_in_sha256 transcribes_B (Some ''wav'') 0 typed_session)"

definition three_questions :: "question_item list" where
  "three_questions =
     [\<lparr>topic = ''T1'', question = ''Q1'', answer_key = ''K1''\<rparr>,
      \<lparr>topic = ''T2'', question = ''Q2'', answer_key = ''K2''\<rparr>,
      \<lparr>topic = ''T3'', question = ''Q3'', answer_key = ''K3''\<rparr>]"

definition grades_two :: eval_service where
  "grades_two = (\<lambda>payload. Inr (JList [grade 9, grade 6]))"

definition grades_none :: eval_service where
  "grades_none = (\<lambda>payload. Inr (JList []))"

definition three_grades :: json where
  "three_grades = JList [grade 9, grade 6, grade 10]"

definition eight_grades :: json where
  "eight_grades =
     JList [grade 3, grade 3, grade 3, grade 3, grade 3, grade 3, grade 3, grade 2]"

section \<open>Generation: what a failed attempt leaves\<close>

lemma history_generate_now [simp]: "history (s\<lparr>generate_now := b\<rparr>) = history s"
  by (simp add: history_def)

lemma get_used_topics_generate_now [simp]:
  "get_used_topics (s\<lparr>generate_now := b\<rparr>) = get_used_topics s"
  by (simp add: get_used_topics_def)

lemma history_click_new_set [simp]: "history (click_generate_new_set s) = history s"
  by (simp add: history_def click_generate_new_set_def)

lemma history_click_questions [simp]: "history (click_generate_questions s) = history s"
  by (simp add: history_def click_generate_questions_def)

lemma get_used_topics_click_new_set [simp]:
  "get_used_topics (click_generate_new_set s) = get_used_topics s"
  by (simp add: get_used_topics_def)

lemma get_used_topics_click_questions [simp]:
  "get_used_topics (click_generate_questions s) = get_used_topics s"
  by (simp add: get_used_topics_def)

lemma pdf_text_click_new_set [simp]: "pdf_text (click_generate_new_set s) = pdf_text s"
  by (simp add: click_generate_new_set_def)

lemma pdf_text_click_questions [simp]: "pdf_text (click_generate_questions s) = pdf_text s"
  by (simp add: click_generate_questions_def)

lemma generation_fails_click_new_set [simp]:
  "generation_fails llm n (click_generate_new_set s) = generation_fails llm n s"
  by (simp add: generation_fails_def)

lemma generation_fails_click_questions [simp]:
  "generation_fails llm n (click_generate_questions s) = generation_fails llm n s"
  by (simp add: generation_fails_def)

lemma generate_block_fails:
  "generation_fails llm n s \<Longrightarrow> generate_block llm now n s = s\<lparr>generate_now := False\<rparr>"
  by (simp add: generation_fails_def generate_block_def Let_def)

lemma generation_fails_unchanged:
  "generation_fails llm n s \<Longrightarrow> generation llm now n s = s\<lparr>generate_now := False\<rparr>"
  by (simp add: generation_def generate_block_fails)

lemmas run_generation =
  generation_def generate_block_def click_generate_questions_def click_generate_new_set_def
  initial_session_def all_questions_of_def parse_questions_def normalize_item_def item_def
  get_stripped_def strip_def is_space_def commit_def history_def get_used_topics_def Let_def

lemma two_question_session_eq:
  "two_question_session =
     \<lparr>question_set_id = 1,
      questions = [\<lparr>topic = ''Shock'', question = ''Q1'', answer_key = ''K1''\<rparr>,
                   \<lparr>topic = ''Airway'', question = ''Q2'', answer_key = ''K2''\<rparr>],
      user_answers = [[], []], evaluations = JList [], mode = ''idle'',
      current_set_id = Some 0, generate_now = False,
      all_question_sets = Some [\<lparr>set_id = 0,
         set_questions = [\<lparr>topic = ''Shock'', question = ''Q1'', answer_key = ''K1''\<rparr>,
                          \<lparr>topic = ''Airway'', question = ''Q2'', answer_key = ''K2''\<rparr>],
         topics = [''Shock'', ''Airway''], timestamp = ''2026-01-01 00:00:00''\<rparr>],
      pdf_text = ''manual'', ans = Map.empty, last_audio_hash = Map.empty\<rparr>"
  by (simp add: two_question_session_def two_items_service_def run_generation)

lemma failing_service_fails: "generation_fails failing_service n s"
  by (simp add: generation_fails_def failing_service_def all_questions_of_def)

text \<open>
  C9. In every session \<open>get_used_topics\<close> holds exactly the topics of the sets of the
  history, each once, in ascending order. Neither button changes it, and a generation
  attempt that fails leaves the history, and with it the used topics, as they were.
\<close>

theorem used_topics_sorted_union:
  "set (get_used_topics s) = (\<Union>qs \<in> set (history s). set (topics qs))
   \<and> sorted (get_used_topics s) \<and> distinct (get_used_topics s)
   \<and> get_used_topics (click_generate_questions s) = get_used_topics s
   \<and> get_used_topics (click_generate_new_set s) = get_used_topics s
   \<and> (generation_fails llm n s \<longrightarrow>
        history (generation llm now n s) = history s
        \<and> get_used_topics (generation llm now n s) = get_used_topics s)"
  by (simp add: generation_fails_unchanged) (simp add: get_used_topics_def)

theorem used_topics_sorted_union_witness:
  "generation_fails failing_service 2 (click_generate_new_set two_question_session)
   \<and> get_used_topics two_question_session = [''Airway'', ''Shock'']
   \<and> get_used_topics (generation failing_service ''2026-01-02 00:00:00'' 2
         (click_generate_new_set two_question_session)) = [''Airway'', ''Shock'']"
proof -
  have f: "generation_fails failing_service 2 (click_generate_new_set two_question_session)"
    by (rule failing_service_fails)
  have u: "get_used_topics two_question_session = [''Airway'', ''Shock'']"
    by (simp add: two_question_session_eq get_used_topics_def history_def)
  from f u used_topics_sorted_union
         [of "click_generate_new_set two_question_session" failing_service 2
             "''2026-01-02 00:00:00''"]
  show ?thesis by simp
qed

text \<open>
  C2, as stated, fails: the attempt is requested by a button, and the handler of the
  button runs before the generation. After \<^verbatim>\<open>Generate a New Set of Questions\<close> and
  a failing service, the questions, the answers and the counter \<^verbatim>\<open>question_set_id\<close>
  are not what they were before the click; after \<^verbatim>\<open>Generate Questions\<close> and a
  failing service the counter is not.
\<close>

theorem failed_generation_counterexample:
  "generation_fails failing_service 2 two_question_session
   \<and> questions (generation failing_service ''2026-01-02 00:00:00'' 2
         (click_generate_new_set two_question_session)) \<noteq> questions two_question_session
   \<and> user_answers (generation failing_service ''2026-01-02 00:00:00'' 2
         (click_generate_new_set two_question_session)) \<noteq> user_answers two_question_session
   \<and> question_set_id (generation failing_service ''2026-01-02 00:00:00'' 2
         (click_generate_new_set two_question_session)) \<noteq> question_set_id two_question_session
   \<and> question_set_id (generation failing_service ''2026-01-02 00:00:00'' 2
         (click_generate_questions two_question_session)) \<noteq> question_set_id two_question_session"
proof -
  have f: "generation_fails failing_service 2 two_question_session"
    by (rule failing_service_fails)
  then show ?thesis
    by (simp add: generation_fails_unchanged)
       (simp add: click_generate_new_set_def click_generate_questions_def
          two_question_session_eq)
qed

text \<open>
  C2, amended. A failing generation step commits nothing: it only clears
  \<^verbatim>\<open>generate_now\<close>, so the questions, the answers, the evaluations, the history,
  \<^verbatim>\<open>current_set_id\<close> and \<^verbatim>\<open>question_set_id\<close> are those the step started with.
  What the button did before stays: both buttons have added one to
  \<^verbatim>\<open>question_set_id\<close>, and \<^verbatim>\<open>Generate a New Set of Questions\<close> has emptied the
  questions, the answers and the evaluations.
\<close>

theorem failed_generation_commits_nothing:
  "generation_fails llm n s \<Longrightarrow>
     generation llm now n s = s\<lparr>generate_now := False\<rparr>
     \<and> generation llm now n (click_generate_new_set s) =
         s\<lparr>questions := [], user_answers := [], evaluations := JList [], mode := ''generate'',
           generate_now := False, question_set_id := question_set_id s + 1\<rparr>
     \<and> (pdf_text s \<noteq> [] \<longrightarrow>
          generation llm now n (click_generate_questions s) =
            s\<lparr>generate_now := False, question_set_id := question_set_id s + 1\<rparr>)"
  by (simp add: generation_fails_unchanged)
     (simp add: click_generate_new_set_def click_generate_questions_def)

theorem failed_generation_commits_nothing_witness:
  "generation_fails failing_service 2 two_question_session
   \<and> pdf_text two_question_session \<noteq> []
   \<and> generation failing_service ''2026-01-02 00:00:00'' 2
         (click_generate_questions two_question_session) =
       two_question_session\<lparr>question_set_id := 2\<rparr>"
proof -
  have f: "generation_fails failing_service 2 two_question_session"
    by (rule failing_service_fails)
  have p: "pdf_text two_question_session \<noteq> []"
    by (simp add: two_question_session_eq)
  from f p failed_generation_commits_nothing [OF f, of "''2026-01-02 00:00:00''"]
  show ?thesis by (simp add: two_question_session_eq)
qed

section \<open>Generation: what a successful attempt commits\<close>

lemma normalize_items_length:
  "normalize_items items = Inr qs \<Longrightarrow> length qs \<le> length items"
proof (induction items arbitrary: qs)
  case Nil
  then show ?case by simp
next
  case (Cons x xs)
  then show ?case
    by (auto split: sum.splits option.splits)
qed

lemma all_questions_of_list_length:
  "length (all_questions_of (Inr (JList items))) \<le> length items"
  by (auto simp: all_questions_of_def parse_questions_def normalize_items_length
           split: sum.splits)

lemma generation_commits:
  "generate_now s \<Longrightarrow> \<not> generation_fails llm n s \<Longrightarrow>
     questions (generation llm now n s) =
       all_questions_of (llm \<lparr>req_count = n, req_used_topics = get_used_topics s,
                               req_text = pdf_text s\<rparr>)"
  by (simp add: generation_def generate_block_def generation_fails_def commit_def Let_def)

lemma one_question_session_eq:
  "one_question_session =
     \<lparr>question_set_id = 1,
      questions = [\<lparr>topic = ''Airway'', question = ''Q1'', answer_key = ''K1''\<rparr>],
      user_answers = [[]], evaluations = JList [], mode = ''idle'',
      current_set_id = Some 0, generate_now = False,
      all_question_sets = Some [\<lparr>set_id = 0,
         set_questions = [\<lparr>topic = ''Airway'', question = ''Q1'', answer_key = ''K1''\<rparr>],
         topics = [''Airway''], timestamp = ''2026-01-01 00:00:00''\<rparr>],
      pdf_text = ''manual'', ans = Map.empty, last_audio_hash = Map.empty\<rparr>"
  by (simp add: one_question_session_def one_item_service_def run_generation)

lemma ev_state_evaluate_click:
  "ev_state (evaluate_click llm s) =
     (if questions s = [] then s
      else s\<lparr>evaluations := fst (score_short_answers llm (user_answers s) (questions s))\<rparr>)"
  by (simp add: evaluate_click_def Let_def split: prod.splits sum.splits)

lemma evaluated_session_eq:
  "evaluated_session = typed_session\<lparr>evaluations := JList [grade 7]\<rparr>"
  by (simp add: evaluated_session_def ev_state_evaluate_click typed_session_def
        one_question_session_eq score_short_answers_def)

text \<open>
  C6, as stated, fails: the slider asks for one question, the service answers a
  well-formed list of two, and two questions are committed.
\<close>

theorem requested_count_counterexample:
  "generate_now (click_generate_questions (initial_session ''manual''))
   \<and> \<not> generation_fails two_items_service 1
         (click_generate_questions (initial_session ''manual''))
   \<and> \<not> length (questions (generation two_items_service ''2026-01-01 00:00:00'' 1
                  (click_generate_questions (initial_session ''manual'')))) \<le> 1"
  by (simp add: two_items_service_def generation_fails_def run_generation)

text \<open>
  C6, amended. When the answer of the service is a list and the generation commits, the
  questions committed are at most as many as the items of that list. The requested count
  is part of the prompt only; nothing compares the list with it.
\<close>

theorem question_count_at_most_items:
  "generate_now s \<Longrightarrow> \<not> generation_fails llm n s \<Longrightarrow>
   llm \<lparr>req_count = n, req_used_topics = get_used_topics s, req_text = pdf_text s\<rparr>
     = Inr (JList items) \<Longrightarrow>
   length (questions (generation llm now n s)) \<le> length items"
  by (simp add: generation_commits all_questions_of_list_length)

theorem question_count_at_most_items_witness:
  "generate_now (click_generate_questions (initial_session ''manual''))
   \<and> \<not> generation_fails two_items_service 1
         (click_generate_questions (initial_session ''manual''))
   \<and> length (questions (generation two_items_service ''2026-01-01 00:00:00'' 1
                (click_generate_questions (initial_session ''manual'')))) \<le> 2"
proof -
  let ?s = "click_generate_questions (initial_session ''manual'')"
  have g: "generate_now ?s"
    by (simp add: click_generate_questions_def initial_session_def)
  have f: "\<not> generation_fails two_items_service 1 ?s"
    by (simp add: two_items_service_def generation_fails_def run_generation)
  have r: "two_items_service \<lparr>req_count = 1, req_used_topics = get_used_topics ?s,
                               req_text = pdf_text ?s\<rparr>
             = Inr (JList [item ''Shock'' ''Q1'' ''K1'', item ''Airway'' ''Q2'' ''K2''])"
    by (simp add: two_items_service_def)
  from g f question_count_at_most_items [OF g f r, of "''2026-01-01 00:00:00''"]
  show ?thesis by simp
qed

text \<open>
  C8 does not hold of the code. The filter of line 254 tests the fields before they are
  stripped, line 250 strips afterwards: an item whose question is one blank passes the
  filter and is committed with the empty question.
\<close>

theorem blank_question_committed:
  "questions (generation blank_question_service ''2026-01-01 00:00:00'' 1
                (click_generate_questions (initial_session ''manual''))) =
     [\<lparr>topic = ''Airway'', question = [], answer_key = ''K1''\<rparr>]"
  by (simp add: blank_question_service_def run_generation)

text \<open>
  C3 does not hold of the code. The commit sets the questions and the answers and leaves
  the evaluations alone; only \<^verbatim>\<open>Generate a New Set of Questions\<close> empties them.
  After \<^verbatim>\<open>Generate Questions\<close> on a session that holds an evaluation, two new
  questions and two empty answers stand beside the one evaluation of the old set.
\<close>

theorem stale_evaluations_kept:
  "evaluations (generation two_items_service ''2026-01-02 00:00:00'' 2
                  (click_generate_questions evaluated_session)) = JList [grade 7]
   \<and> length (questions (generation two_items_service ''2026-01-02 00:00:00'' 2
                  (click_generate_questions evaluated_session))) = 2
   \<and> user_answers (generation two_items_service ''2026-01-02 00:00:00'' 2
                  (click_generate_questions evaluated_session)) = [[], []]
   \<and> evaluations (generation two_items_service ''2026-01-02 00:00:00'' 2
                  (click_generate_new_set evaluated_session)) = JList []"
  by (simp add: evaluated_session_eq typed_session_def one_question_session_eq
        two_items_service_def run_generation)

section \<open>Dictation: what a run of the script stores\<close>

lemma strip_ends:
  assumes "strip s \<noteq> []"
  shows "\<not> is_space (hd (strip s))" and "\<not> is_space (last (strip s))"
proof -
  let ?inner = "dropWhile is_space s"
  let ?r = "dropWhile is_space (rev ?inner)"
  from assms have r: "?r \<noteq> []" by (simp add: strip_def)
  have inner: "?inner \<noteq> []"
  proof
    assume e: "?inner = []"
    have "?r = []" unfolding e by simp
    with r show False by simp
  qed
  have "last (strip s) = hd ?r" using r by (simp add: strip_def last_rev)
  also have "\<not> is_space (hd ?r)" using r by (rule hd_dropWhile)
  finally show "\<not> is_space (last (strip s))" .
  have "hd (strip s) = last ?r" using r by (simp add: strip_def hd_rev)
  also have "last ?r = last (rev ?inner)"
    using r by (metis last_appendR takeWhile_dropWhile_id)
  also have "\<dots> = hd ?inner" using inner by (simp add: last_rev)
  finally have "hd (strip s) = hd ?inner" .
  moreover have "\<not> is_space (hd ?inner)" using inner by (rule hd_dropWhile)
  ultimately show "\<not> is_space (hd (strip s))" by simp
qed

lemma strip_id:
  assumes "s \<noteq> []" and "\<not> is_space (hd s)" and "\<not> is_space (last s)"
  shows "strip s = s"
proof -
  have front: "dropWhile is_space s = s"
    using assms by (simp add: dropWhile_eq_self_iff)
  have rear: "dropWhile is_space (rev s) = rev s"
    using assms by (simp add: dropWhile_eq_self_iff hd_rev)
  show ?thesis by (simp add: strip_def front rear)
qed

lemma strip_joined:
  assumes "strip a \<noteq> []" and "strip b \<noteq> []"
  shows "strip (strip a @ '' '' @ strip b) = strip a @ '' '' @ strip b"
proof (rule strip_id)
  show "strip a @ '' '' @ strip b \<noteq> []" by simp
  show "\<not> is_space (hd (strip a @ '' '' @ strip b))"
    using assms(1) strip_ends(1) [of a] by simp
  show "\<not> is_space (last (strip a @ '' '' @ strip b))"
    using assms(2) strip_ends(2) [of b] by simp
qed


lemma joined_stripped:
  "strip a \<noteq> [] \<Longrightarrow> strip b \<noteq> [] \<Longrightarrow>
     joined (joined a (strip b)) (strip b) = strip a @ '' '' @ strip b @ '' '' @ strip b"
  using strip_joined [of a b] by (simp add: joined_def)

lemma get_ans_put_answer [simp]: "get_ans qid i (put_answer qid i t s) = t"
  by (simp add: get_ans_def put_answer_def)

lemma question_set_id_put_answer [simp]:
  "question_set_id (put_answer qid i t s) = question_set_id s"
  by (simp add: put_answer_def)

lemma user_answers_put_answer [simp]:
  "user_answers (put_answer qid i t s) = (user_answers s)[i := t]"
  by (simp add: put_answer_def)

lemma questions_put_answer [simp]: "questions (put_answer qid i t s) = questions s"
  by (simp add: put_answer_def)

text \<open>
  C1 does not hold of the code. When the stored text \<open>A\<close> and the transcript \<open>B\<close>
  are both non-empty after stripping, lines 348 to 355 store \<open>A B\<close>, and lines 367 to
  374, which run next with the same \<^verbatim>\<open>dictated_text\<close>, append it a second time:
  the answer of the question is \<open>A B B\<close>.
\<close>

theorem transcript_appended_twice:
  assumes "i < length (user_answers s)"
    and "last_audio_hash s i \<noteq> Some (sha256 audio_bytes)"
    and "whisper audio_bytes = Inr transcript"
    and "strip transcript \<noteq> []"
    and "strip (get_ans (question_set_id s) i s) \<noteq> []"
  shows "user_answers (fst (answer_slot sha256 whisper (Some audio_bytes) i s)) ! i =
           strip (get_ans (question_set_id s) i s) @ '' '' @ strip transcript @ '' '' @ strip transcript"
  using assms
  by (simp add: answer_slot_def dictation_def Let_def joined_stripped get_ans_def put_answer_def)


lemma typed_session_eq:
  "typed_session =
     \<lparr>question_set_id = 1,
      questions = [\<lparr>topic = ''Airway'', question = ''Q1'', answer_key = ''K1''\<rparr>],
      user_answers = [''A''], evaluations = JList [], mode = ''idle'',
      current_set_id = Some 0, generate_now = False,
      all_question_sets = Some [\<lparr>set_id = 0,
         set_questions = [\<lparr>topic = ''Airway'', question = ''Q1'', answer_key = ''K1''\<rparr>],
         topics = [''Airway''], timestamp = ''2026-01-01 00:00:00''\<rparr>],
      pdf_text = ''manual'', ans = [(1, 0) \<mapsto> ''A''], last_audio_hash = Map.empty\<rparr>"
  by (simp add: typed_session_def one_question_session_eq)

lemmas run_answer =
  answer_slot_def dictation_def joined_def get_ans_def put_answer_def strip_def is_space_def
  transcribes_B_def Let_def

theorem transcript_appended_twice_witness:
  "0 < length (user_answers typed_session)
   \<and> last_audio_hash typed_session 0 \<noteq> Some (stand_in_sha256 ''wav'')
   \<and> transcribes_B ''wav'' = Inr ''B''
   \<and> get_ans (question_set_id typed_session) 0 typed_session = ''A''
   \<and> user_answers (fst (answer_slot stand_in_sha256 transcribes_B (Some ''wav'') 0
                            typed_session)) ! 0 = ''A B B''"
proof -
  have 1: "0 < length (user_answers typed_session)" by (simp add: typed_session_eq)
  have 2: "last_audio_hash typed_session 0 \<noteq> Some (stand_in_sha256 ''wav'')"
    by (simp add: typed_session_eq)
  have 3: "transcribes_B ''wav'' = Inr ''B''" by (simp add: transcribes_B_def)
  have 4: "strip ''B'' \<noteq> []" by (simp add: strip_def is_space_def)
  have 5: "get_ans (question_set_id typed_session) 0 typed_session = ''A''"
    by (simp add: typed_session_eq get_ans_def)
  have 6: "strip (get_ans (question_set_id typed_session) 0 typed_session) \<noteq> []"
    by (simp add: 5 strip_def is_space_def)
  from transcript_appended_twice
         [where i = 0 and s = typed_session and ?sha256.0 = stand_in_sha256
            and audio_bytes = "''wav''" and whisper = transcribes_B and transcript = "''B''"]
       1 2 3 4 5 6
  show ?thesis by (simp add: strip_def is_space_def)
qed

lemma dictated_session_eq:
  "dictated_session =
     typed_session\<lparr>ans := [(1, 0) \<mapsto> ''A B B''], user_answers := [''A B B''],
                    last_audio_hash := [0 \<mapsto> ''wav'']\<rparr>"
  by (simp add: dictated_session_def typed_session_eq run_answer stand_in_sha256_def)

text \<open>
  C7 does not hold of the code. A recording whose digest is the stored one is not
  transcribed again and the user is told so, but lines 367 to 374 still run, with the
  empty \<^verbatim>\<open>dictated_text\<close>: a non-blank answer is replaced by its stripped text
  followed by one blank. After the merge of the witness the answer \<^verbatim>\<open>A B B\<close>
  becomes \<^verbatim>\<open>A B B\<close> with a blank at its end.
\<close>

theorem redelivery_appends_blank:
  assumes "last_audio_hash s i = Some (sha256 audio_bytes)"
    and "strip (get_ans (question_set_id s) i s) \<noteq> []"
  shows "answer_slot sha256 whisper (Some audio_bytes) i s =
           (put_answer (question_set_id s) i
              (strip (get_ans (question_set_id s) i s) @ '' '') s,
            [AlreadyTranscribed])"
  using assms by (simp add: answer_slot_def dictation_def joined_def Let_def)

theorem redelivery_appends_blank_witness:
  "last_audio_hash dictated_session 0 = Some (stand_in_sha256 ''wav'')
   \<and> user_answers dictated_session = [''A B B'']
   \<and> snd (answer_slot stand_in_sha256 transcribes_B (Some ''wav'') 0 dictated_session)
       = [AlreadyTranscribed]
   \<and> user_answers (fst (answer_slot stand_in_sha256 transcribes_B (Some ''wav'') 0
                            dictated_session)) = [''A B B '']"
proof -
  have 1: "last_audio_hash dictated_session 0 = Some (stand_in_sha256 ''wav'')"
    by (simp add: dictated_session_eq stand_in_sha256_def)
  have 2: "strip (get_ans (question_set_id dictated_session) 0 dictated_session) \<noteq> []"
    by (simp add: dictated_session_eq typed_session_eq get_ans_def strip_def is_space_def)
  from redelivery_appends_blank
         [where s = dictated_session and i = 0 and ?sha256.0 = stand_in_sha256
            and audio_bytes = "''wav''" and whisper = transcribes_B]
       1 2
  show ?thesis
    by (simp add: dictated_session_eq typed_session_eq get_ans_def strip_def is_space_def)
qed


section \<open>Evaluation: the request and the aggregate\<close>

lemma dictation_frame:
  "questions (fst (snd (dictation sha256 whisper audio_data i s))) = questions s
   \<and> length (user_answers (fst (snd (dictation sha256 whisper audio_data i s))))
       = length (user_answers s)"
  by (simp add: dictation_def Let_def put_answer_def split: option.splits sum.splits)

lemma answer_slot_frame:
  "questions (fst (answer_slot sha256 whisper audio_data i s)) = questions s
   \<and> length (user_answers (fst (answer_slot sha256 whisper audio_data i s)))
       = length (user_answers s)"
proof -
  obtain d s1 shown where d: "dictation sha256 whisper audio_data i s = (d, s1, shown)"
    by (cases "dictation sha256 whisper audio_data i s") auto
  with dictation_frame [of sha256 whisper audio_data i s]
  show ?thesis by (simp add: answer_slot_def Let_def)
qed

lemma answer_loop_frame:
  "questions (fst (fold (\<lambda>i (st, shown).
       case answer_slot sha256 whisper (audio i) i st of
         (st', shown') \<Rightarrow> (st', shown @ shown')) idxs acc)) = questions (fst acc)
   \<and> length (user_answers (fst (fold (\<lambda>i (st, shown).
       case answer_slot sha256 whisper (audio i) i st of
         (st', shown') \<Rightarrow> (st', shown @ shown')) idxs acc))) = length (user_answers (fst acc))"
proof (induction idxs arbitrary: acc)
  case Nil
  then show ?case by simp
next
  case (Cons i idxs)
  obtain st shown where acc: "acc = (st, shown)" by (cases acc)
  obtain st' shown' where a: "answer_slot sha256 whisper (audio i) i st = (st', shown')"
    by (cases "answer_slot sha256 whisper (audio i) i st")
  from answer_slot_frame [of sha256 whisper "audio i" i st] a
  have "questions st' = questions st" "length (user_answers st') = length (user_answers st)"
    by simp_all
  with Cons.IH [of "(st', shown @ shown')"] acc a show ?case by simp
qed

lemma answer_section_aligned:
  "questions s \<noteq> [] \<Longrightarrow>
     questions (fst (answer_section sha256 whisper audio s)) = questions s
     \<and> length (user_answers (fst (answer_section sha256 whisper audio s)))
         = length (questions s)"
  using answer_loop_frame [of sha256 whisper audio "[0..<length (questions s)]"]
  by (simp add: answer_section_def Let_def)

text \<open>
  C4, as stated, fails: with three questions and two answers
  \<^verbatim>\<open>score_short_answers\<close> sends one request, of the two pairs \<^verbatim>\<open>zip\<close> makes,
  and returns what the service answers.
\<close>

theorem length_mismatch_counterexample:
  "length three_questions = 3 \<and> length [''a'', ''b''] = 2
   \<and> score_short_answers grades_two [''a'', ''b''] three_questions =
       (JList [grade 9, grade 6],
        [[\<lparr>g_question = ''Q1'', g_expected = ''K1'', g_response = ''a''\<rparr>,
          \<lparr>g_question = ''Q2'', g_expected = ''K2'', g_response = ''b''\<rparr>]],
        [])"
  by (simp add: score_short_answers_def three_questions_def grades_two_def)

text \<open>
  C4, amended. \<^verbatim>\<open>score_short_answers\<close> compares no lengths: it always sends
  exactly one request, holding as many entries as the shorter of the two lists, and
  returns the answer of the service (\<^verbatim>\<open>[]\<close> on an exception). In the script the
  lengths cannot differ at that point: the answer section, which runs before, leaves as
  many answers as there are questions.
\<close>

theorem one_request_whatever_lengths:
  "(case score_short_answers llm answers qs of
      (results, calls, shown) \<Rightarrow>
        length calls = 1
        \<and> length (hd calls) = min (length qs) (length answers)
        \<and> results = (case llm (hd calls) of Inl e \<Rightarrow> JList [] | Inr r \<Rightarrow> r))
   \<and> (questions s \<noteq> [] \<longrightarrow>
        length (user_answers (fst (answer_section sha256 whisper audio s)))
          = length (questions (fst (answer_section sha256 whisper audio s))))"
  by (simp add: answer_section_aligned)
     (simp add: score_short_answers_def Let_def split: sum.splits)


theorem one_request_whatever_lengths_witness:
  "questions typed_session \<noteq> []
   \<and> length (user_answers (fst (answer_section stand_in_sha256 transcribes_B (\<lambda>i. None)
                 typed_session))) = 1
   \<and> length (fst (snd (score_short_answers grades_two [''a'', ''b''] three_questions))) = 1
   \<and> length (hd (fst (snd (score_short_answers grades_two [''a'', ''b''] three_questions))))
       = 2"
proof -
  have q: "questions typed_session \<noteq> []" by (simp add: typed_session_eq)
  have a: "questions (fst (answer_section stand_in_sha256 transcribes_B (\<lambda>i. None)
             typed_session)) = questions typed_session"
    using q by (simp add: answer_section_aligned)
  obtain results calls shown where
    r: "score_short_answers grades_two [''a'', ''b''] three_questions = (results, calls, shown)"
    by (cases "score_short_answers grades_two [''a'', ''b''] three_questions") auto
  from one_request_whatever_lengths
         [where llm = grades_two and answers = "[''a'', ''b'']" and qs = three_questions
            and s = typed_session and ?sha256.0 = stand_in_sha256
            and whisper = transcribes_B and audio = "\<lambda>i. None"]
       q a r
  show ?thesis by (simp add: typed_session_eq three_questions_def)
qed

lemma score_of_no_zero_division: "score_of r \<noteq> Inl ZeroDivisionError"
  by (cases r) (auto simp: score_of_def split: option.splits json.splits)

lemma sum_scores_no_zero_division: "sum_scores rs acc \<noteq> Inl ZeroDivisionError"
proof (induction rs arbitrary: acc)
  case Nil
  then show ?case by simp
next
  case (Cons r rs)
  then show ?case
    using score_of_no_zero_division [of r] by (auto split: sum.splits)
qed

lemma py_iter_no_zero_division: "py_iter j \<noteq> Inl ZeroDivisionError"
  by (cases j) auto

lemma truthy_py_iter: "truthy j \<Longrightarrow> py_iter j = Inr rs \<Longrightarrow> rs \<noteq> []"
  by (cases j) auto

lemma round1_no_zero_division: "round1 x \<noteq> Inl ZeroDivisionError"
  by (auto simp: round1_def split: pyfloat.splits prod.splits option.splits)

lemma percentage_no_zero_division:
  "m \<noteq> 0 \<Longrightarrow> percentage t m \<noteq> Inl ZeroDivisionError"
  by (auto simp: percentage_def truediv_def round1_no_zero_division
           split: sum.splits option.splits prod.splits if_splits)

lemma aggregate_no_zero_division:
  assumes "truthy results"
  shows "aggregate results \<noteq> Inl ZeroDivisionError"
proof (cases "py_iter results")
  case (Inl e)
  then show ?thesis
    using py_iter_no_zero_division [of results] by (simp add: aggregate_def)
next
  case (Inr rs)
  with assms have "rs \<noteq> []" by (rule truthy_py_iter)
  then have m: "int (length rs) * 10 \<noteq> 0" by simp
  show ?thesis
  proof (cases "sum_scores rs 0")
    case (Inl e)
    then show ?thesis
      using Inr sum_scores_no_zero_division [of rs 0] by (simp add: aggregate_def)
  next
    case total: (Inr total_score)
    from percentage_no_zero_division [OF m, of total_score] Inr total
    show ?thesis by (auto simp: aggregate_def Let_def split: sum.splits)
  qed
qed

lemma aggregate_max_positive:
  "truthy results \<Longrightarrow> aggregate results = Inr (t, m, p) \<Longrightarrow> 0 < m"
  by (auto simp: aggregate_def Let_def split: sum.splits dest: truthy_py_iter)

text \<open>
  C5, as stated, fails in its second half: nothing is reported for an empty evaluation.
  When the service answers the empty list, the click shows nothing at all; when there is
  no question, the button is not drawn, no request is sent and nothing is shown.
\<close>

theorem empty_evaluation_counterexample:
  "questions typed_session \<noteq> []
   \<and> ev_outcome (evaluate_click grades_none typed_session) = Inr None
   \<and> ev_shown (evaluate_click grades_none typed_session) = []
   \<and> questions (initial_session ''manual'') = []
   \<and> ev_calls (evaluate_click grades_none (initial_session ''manual'')) = []
   \<and> ev_shown (evaluate_click grades_none (initial_session ''manual'')) = []"
  by (simp add: evaluate_click_def score_short_answers_def grades_none_def typed_session_eq
        initial_session_def)

text \<open>
  C5, amended. A click on \<^verbatim>\<open>Evaluate My Answers\<close> never ends in a division by
  zero: the percentage is computed only for a truthy list of results, and then the
  maximum is positive. For results that are not truthy (the empty list) the aggregate is
  skipped, and the click shows only what \<^verbatim>\<open>score_short_answers\<close> has shown, which
  is the scoring error after an exception and nothing otherwise.
\<close>

theorem no_division_by_zero:
  "ev_outcome (evaluate_click llm s) \<noteq> Inl ZeroDivisionError
   \<and> (ev_outcome (evaluate_click llm s) = Inr (Some (t, m, p)) \<longrightarrow> 0 < m)
   \<and> (\<not> truthy (fst (score_short_answers llm (user_answers s) (questions s))) \<longrightarrow>
        ev_outcome (evaluate_click llm s) = Inr None
        \<and> (questions s \<noteq> [] \<longrightarrow>
             ev_shown (evaluate_click llm s)
               = snd (snd (score_short_answers llm (user_answers s) (questions s)))))"
proof -
  obtain results calls shown where
    r: "score_short_answers llm (user_answers s) (questions s) = (results, calls, shown)"
    by (cases "score_short_answers llm (user_answers s) (questions s)") auto
  show ?thesis
  proof (cases "questions s \<noteq> [] \<and> truthy results")
    case True
    then have tr: "truthy results" by simp
    show ?thesis
    proof (cases "aggregate results")
      case (Inl e)
      with aggregate_no_zero_division [OF tr] have "e \<noteq> ZeroDivisionError" by auto
      with Inl r True show ?thesis by (simp add: evaluate_click_def)
    next
      case (Inr a)
      obtain t' m' p' where a: "a = (t', m', p')" by (cases a)
      from aggregate_max_positive [OF tr] Inr a have "0 < m'" by simp
      with Inr a r True show ?thesis by (simp add: evaluate_click_def)
    qed
  next
    case False
    with r show ?thesis by (auto simp: evaluate_click_def)
  qed
qed

theorem no_division_by_zero_witness:
  "\<not> truthy (fst (score_short_answers grades_none (user_answers typed_session)
                   (questions typed_session)))
   \<and> questions typed_session \<noteq> []
   \<and> ev_outcome (evaluate_click grades_none typed_session) = Inr None
   \<and> ev_shown (evaluate_click grades_none typed_session) = []"
proof -
  have n: "\<not> truthy (fst (score_short_answers grades_none (user_answers typed_session)
                          (questions typed_session)))"
    by (simp add: score_short_answers_def grades_none_def)
  have q: "questions typed_session \<noteq> []" by (simp add: typed_session_eq)
  have e: "snd (snd (score_short_answers grades_none (user_answers typed_session)
                       (questions typed_session))) = []"
    by (simp add: score_short_answers_def grades_none_def)
  from no_division_by_zero [where llm = grades_none and s = typed_session] n q e
  show ?thesis by simp
qed

section \<open>The aggregate score\<close>

lemmas run_rounding =
  to_double_def round_magnitude_def floor_log2_def round_half_even_def Let_def

lemma quotient_25_30: "to_double 25 30 = Some (7505999378950827, - 53)"
  by (simp add: run_rounding)

lemma product_25_30:
  "to_double 750599937895082700 9007199254740992 = Some (5864062014805334, - 46)"
  by (simp add: run_rounding)

lemma tenths_833: "to_double 833 10 = Some (5861716389999411, - 46)"
  by (simp add: run_rounding)

lemma quotient_23_80: "to_double 23 80 = Some (5179139571476070, - 54)"
  by (simp add: run_rounding)

lemma product_23_80:
  "to_double 517913957147607000 18014398509481984 = Some (8092405580431359, - 48)"
  by (simp add: run_rounding)

lemma tenths_287: "to_double 287 10 = Some (8078331831595827, - 48)"
  by (simp add: run_rounding)

lemma tenths_288: "to_double 288 10 = Some (8106479329266893, - 48)"
  by (simp add: run_rounding)

lemma quotient_2300_80: "to_double 2300 80 = Some (8092405580431360, - 48)"
  by (simp add: run_rounding)

lemma percentage_25_30: "percentage 25 30 = Inr (tenths 833)"
proof -
  have d: "truediv 25 30 = Inr (Finite 7505999378950827 (- 53))"
    by (simp add: truediv_def quotient_25_30)
  have f: "fraction 7505999378950827 (- 53) = (7505999378950827, 9007199254740992)"
    by (simp add: fraction_def)
  have m: "fmul (Finite 7505999378950827 (- 53)) 100 = Finite 5864062014805334 (- 46)"
    by (simp add: fmul_def f product_25_30)
  have g: "fraction 5864062014805334 (- 46) = (5864062014805334, 70368744177664)"
    by (simp add: fraction_def)
  have h: "round_half_even 58640620148053340 70368744177664 = 833"
    by (simp add: round_half_even_def)
  have r: "round1 (Finite 5864062014805334 (- 46)) = Inr (Finite 5861716389999411 (- 46))"
    by (simp add: round1_def g h tenths_833)
  show ?thesis by (simp add: percentage_def d m r tenths_def tenths_833)
qed

lemma percentage_23_80: "percentage 23 80 = Inr (tenths 287)"
proof -
  have d: "truediv 23 80 = Inr (Finite 5179139571476070 (- 54))"
    by (simp add: truediv_def quotient_23_80)
  have f: "fraction 5179139571476070 (- 54) = (5179139571476070, 18014398509481984)"
    by (simp add: fraction_def)
  have m: "fmul (Finite 5179139571476070 (- 54)) 100 = Finite 8092405580431359 (- 48)"
    by (simp add: fmul_def f product_23_80)
  have g: "fraction 8092405580431359 (- 48) = (8092405580431359, 281474976710656)"
    by (simp add: fraction_def)
  have h: "round_half_even 80924055804313590 281474976710656 = 287"
    by (simp add: round_half_even_def)
  have r: "round1 (Finite 8092405580431359 (- 48)) = Inr (Finite 8078331831595827 (- 48))"
    by (simp add: round1_def g h tenths_287)
  show ?thesis by (simp add: percentage_def d m r tenths_def tenths_287)
qed

lemma spec_percentage_23_80: "spec_percentage 23 80 = Inr (tenths 288)"
proof -
  have d: "truediv 2300 80 = Inr (Finite 8092405580431360 (- 48))"
    by (simp add: truediv_def quotient_2300_80)
  have g: "fraction 8092405580431360 (- 48) = (8092405580431360, 281474976710656)"
    by (simp add: fraction_def)
  have h: "round_half_even 80924055804313600 281474976710656 = 288"
    by (simp add: round_half_even_def)
  have r: "round1 (Finite 8092405580431360 (- 48)) = Inr (Finite 8106479329266893 (- 48))"
    by (simp add: round1_def g h tenths_288)
  show ?thesis by (simp add: spec_percentage_def d r tenths_def tenths_288)
qed

lemma tenths_287_288: "tenths 287 \<noteq> tenths 288"
  by (simp add: tenths_def tenths_287 tenths_288)


lemma score_of_grade [simp]: "score_of (grade n) = Inr n"
  by (simp add: score_of_def grade_def)

lemma sum_scores_sum_list:
  "list_all2 (\<lambda>r n. score_of r = Inr n) rs ns \<Longrightarrow> sum_scores rs acc = Inr (acc + sum_list ns)"
proof (induction rs ns arbitrary: acc rule: list_all2_induct)
  case Nil
  then show ?case by simp
next
  case (Cons r n rs ns)
  then show ?case by (simp add: add.assoc)
qed

lemma aggregate_list:
  assumes "list_all2 (\<lambda>r n. score_of r = Inr n) rs ns"
  shows "aggregate (JList rs) =
           (case percentage (sum_list ns) (int (length rs) * 10) of
              Inl e \<Rightarrow> Inl e
            | Inr p \<Rightarrow> Inr (sum_list ns, int (length rs) * 10, p))"
  using sum_scores_sum_list [OF assms, of 0] by (simp add: aggregate_def Let_def)

lemma three_grades_scores:
  "list_all2 (\<lambda>r n. score_of r = Inr n) [grade 9, grade 6, grade 10] [9, 6, 10]"
  by simp

lemma eight_grades_scores:
  "list_all2 (\<lambda>r n. score_of r = Inr n)
     [grade 3, grade 3, grade 3, grade 3, grade 3, grade 3, grade 3, grade 2]
     [3, 3, 3, 3, 3, 3, 3, 2]"
  by simp

text \<open>
  C10, as stated, fails in its formula for the percentage. Line 455 divides first and
  multiplies by 100 afterwards, and each of the two operations rounds to a float; the
  specification's \<^verbatim>\<open>round(100 * total / max, 1)\<close> multiplies first. For eight
  evaluations with the total 23, \<^verbatim>\<open>23 / 80 * 100\<close> is the float just below 28.75
  and the code shows 28.7, while \<^verbatim>\<open>100 * 23 / 80\<close> is 28.75 exactly, which
  rounds to 28.8.
\<close>

theorem percentage_order_counterexample:
  "aggregate eight_grades = Inr (23, 80, tenths 287)
   \<and> spec_percentage 23 80 = Inr (tenths 288)
   \<and> tenths 287 \<noteq> tenths 288"
  using aggregate_list [OF eight_grades_scores]
  by (simp add: eight_grades_def percentage_23_80 spec_percentage_23_80 tenths_287_288)

text \<open>
  C10, amended. For a list of results with integer scores the total is the sum of the
  scores, the maximum is ten times their number, and the percentage is
  \<^verbatim>\<open>round(total / max * 100, 1)\<close> in floats: the quotient rounded to a float, its
  product with 100 rounded to a float, and that rounded to one decimal. The scores 9, 6
  and 10 give 25, 30 and 83.3.
\<close>

theorem aggregate_of_scores:
  "list_all2 (\<lambda>r n. score_of r = Inr n) rs ns \<Longrightarrow>
     aggregate (JList rs) =
       (case truediv (sum_list ns) (10 * int (length rs)) of
          Inl e \<Rightarrow> Inl e
        | Inr x \<Rightarrow>
            (case round1 (fmul x 100) of
               Inl e \<Rightarrow> Inl e
             | Inr p \<Rightarrow> Inr (sum_list ns, 10 * int (length rs), p)))"
  using aggregate_list [of rs ns]
  by (simp add: percentage_def mult.commute split: sum.splits)

theorem aggregate_of_scores_witness:
  "list_all2 (\<lambda>r n. score_of r = Inr n) [grade 9, grade 6, grade 10] [9, 6, 10]
   \<and> aggregate three_grades = Inr (25, 30, tenths 833)"
proof -
  have p: "truediv 25 30 = Inr x \<Longrightarrow> round1 (fmul x 100) = Inr (tenths 833)" for x
    using percentage_25_30 by (simp add: percentage_def)
  have d: "\<exists>x. truediv 25 30 = Inr x"
    by (simp add: truediv_def quotient_25_30)
  from aggregate_of_scores [OF three_grades_scores] three_grades_scores p d
  show ?thesis by (auto simp: three_grades_def)
qed

end
